theory Spec2Isabelle
  imports Main
begin

section \<open>The configuration loader of \<^verbatim>\<open>config.go\<close>\<close>

text \<open>
  The package builds a \<^verbatim>\<open>Config\<close> from a dotenv file, the process environment and
  hard-coded defaults, lets the caller adjust it through a list of \<^verbatim>\<open>Option\<close>
  functions and validates two required fields. Everything the code reads from outside
  (the process environment, the call stack, the file system behind
  \<^verbatim>\<open>godotenv.Read\<close>) is a field of the record \<open>world\<close>, which every function that touches
  it takes as first argument. \<^verbatim>\<open>log.Printf\<close> only writes a line to the standard logger
  and never changes a returned value; the two warnings are left out of the model.
\<close>

subsection \<open>Errors\<close>

text \<open>
  Go errors as values. \<open>ErrNotExist path\<close> is the \<^verbatim>\<open>*fs.PathError\<close> that \<^verbatim>\<open>os.Open\<close>
  returns for a missing file, \<open>ErrOther msg\<close> any other failure of reading or parsing
  the file, \<open>NumError fn str\<close> the \<^verbatim>\<open>*strconv.NumError\<close> with \<^verbatim>\<open>ErrSyntax\<close>,
  \<open>Errorf msg\<close> is \<^verbatim>\<open>fmt.Errorf(msg)\<close> and \<open>Wrapf prefix err\<close> is
  \<^verbatim>\<open>fmt.Errorf(prefix + "%w", err)\<close>.
\<close>

datatype error =
    ErrNotExist string
  | ErrOther string
  | NumError string string
  | Errorf string
  | Wrapf string error

text \<open>
  The text of an error, as its \<^verbatim>\<open>Error()\<close> method prints it. A
  \<^verbatim>\<open>*strconv.NumError\<close> prints the string it could not parse through
  \<^verbatim>\<open>strconv.Quote\<close>, a function of the standard library whose result depends on
  Unicode tables; it is the parameter \<open>Quote\<close>.
\<close>

fun Error :: "(string \<Rightarrow> string) \<Rightarrow> error \<Rightarrow> string" where
  "Error Quote (ErrNotExist path) = ''open '' @ path @ '': no such file or directory''"
| "Error Quote (ErrOther msg) = msg"
| "Error Quote (NumError fn str) =
     ''strconv.'' @ fn @ '': parsing '' @ Quote str @ '': invalid syntax''"
| "Error Quote (Errorf msg) = msg"
| "Error Quote (Wrapf prefix err) = prefix @ Error Quote err"

text \<open>
  \<^verbatim>\<open>os.IsNotExist\<close> looks through the error types of package \<^verbatim>\<open>os\<close> only; it does
  not unwrap an error made by \<^verbatim>\<open>fmt.Errorf\<close>.
\<close>

fun os_IsNotExist :: "error \<Rightarrow> bool" where
  "os_IsNotExist (ErrNotExist path) = True"
| "os_IsNotExist err = False"

subsection \<open>The outside world\<close>

record world =
  LookupEnv :: "string \<rightharpoonup> string"
    \<comment> \<open>\<^verbatim>\<open>os.LookupEnv\<close>: the process environment\<close>
  godotenv_Read :: "string \<Rightarrow> error + (string \<rightharpoonup> string)"
    \<comment> \<open>\<^verbatim>\<open>godotenv.Read\<close>: what reading and parsing the file at a path gives\<close>
  default_env_file :: string
    \<comment> \<open>\<^verbatim>\<open>filepath.Join(filepath.Dir(b), "../..", ".env")\<close> for the file \<^verbatim>\<open>b\<close> of
        \<^verbatim>\<open>runtime.Caller(0)\<close>\<close>

text \<open>\<^verbatim>\<open>os.Getenv\<close>: the value of the variable, empty when it is not set.\<close>

definition Getenv :: "world \<Rightarrow> string \<Rightarrow> string" where
  "Getenv w key = (case LookupEnv w key of Some v \<Rightarrow> v | None \<Rightarrow> [])"

subsection \<open>Booleans of package strconv\<close>

definition FormatBool :: "bool \<Rightarrow> string" where
  "FormatBool b = (if b then ''true'' else ''false'')"

definition ParseBool :: "string \<Rightarrow> error + bool" where
  "ParseBool str =
     (if str \<in> set [''1'', ''t'', ''T'', ''TRUE'', ''true'', ''True''] then Inr True
      else if str \<in> set [''0'', ''f'', ''F'', ''FALSE'', ''false'', ''False''] then Inr False
      else Inl (NumError ''ParseBool'' str))"

subsection \<open>Config and its options\<close>

record Config =
  DatabaseURL :: string
  AuthServiceURL :: string
  Debug :: bool
  Port :: string

text \<open>
  An \<^verbatim>\<open>Option\<close> is a \<^verbatim>\<open>func(*Config)\<close>: it mutates the configuration it is given,
  so the model maps the configuration before the call to the one after it.
\<close>

type_synonym Option = "Config \<Rightarrow> Config"

definition WithDatabaseURL :: "string \<Rightarrow> Option" where
  "WithDatabaseURL url = (\<lambda>c. if url \<noteq> [] then c\<lparr>DatabaseURL := url\<rparr> else c)"

definition WithAuthServiceURL :: "string \<Rightarrow> Option" where
  "WithAuthServiceURL url = (\<lambda>c. if url \<noteq> [] then c\<lparr>AuthServiceURL := url\<rparr> else c)"

definition WithDebug :: "bool \<Rightarrow> Option" where
  "WithDebug debug = (\<lambda>c. c\<lparr>Debug := debug\<rparr>)"

definition WithPort :: "string \<Rightarrow> Option" where
  "WithPort port = (\<lambda>c. if port \<noteq> [] then c\<lparr>Port := port\<rparr> else c)"

text \<open>
  The overrides a caller can write with the four exported constructors alone, and the
  \<^verbatim>\<open>Option\<close> each of them stands for. A caller may also pass a closure of their own,
  which is why \<open>NewConfig\<close> below takes a list of functions.
\<close>

datatype named_option =
    NamedDatabaseURL string
  | NamedAuthServiceURL string
  | NamedDebug bool
  | NamedPort string

fun option_of :: "named_option \<Rightarrow> Option" where
  "option_of (NamedDatabaseURL url) = WithDatabaseURL url"
| "option_of (NamedAuthServiceURL url) = WithAuthServiceURL url"
| "option_of (NamedDebug debug) = WithDebug debug"
| "option_of (NamedPort port) = WithPort port"

subsection \<open>Validation and lookup\<close>

text \<open>\<open>validate\<close> returns \<^verbatim>\<open>nil\<close> (\<open>None\<close>) or the first error.\<close>

definition validate :: "Config \<Rightarrow> error option" where
  "validate c =
     (if DatabaseURL c = [] then Some (Errorf ''DATABASE_URL is not set'')
      else if AuthServiceURL c = [] then Some (Errorf ''AUTH_SERVICE_URL is not set'')
      else None)"

definition getEnvWithFallback ::
  "world \<Rightarrow> (string \<rightharpoonup> string) \<Rightarrow> string \<Rightarrow> string \<Rightarrow> string" where
  "getEnvWithFallback w envs key fallback =
     (case envs key of
        Some v \<Rightarrow>
          if v \<noteq> [] then v
          else (case LookupEnv w key of
                  Some v' \<Rightarrow> if v' \<noteq> [] then v' else fallback
                | None \<Rightarrow> fallback)
      | None \<Rightarrow>
          (case LookupEnv w key of
             Some v' \<Rightarrow> if v' \<noteq> [] then v' else fallback
           | None \<Rightarrow> fallback))"

definition getBoolEnvWithFallback ::
  "world \<Rightarrow> (string \<rightharpoonup> string) \<Rightarrow> string \<Rightarrow> bool \<Rightarrow> bool" where
  "getBoolEnvWithFallback w envs key fallback =
     (let strValue = getEnvWithFallback w envs key (FormatBool fallback)
      in case ParseBool strValue of
           Inl err \<Rightarrow> fallback
         | Inr boolValue \<Rightarrow> boolValue)"

subsection \<open>Loading the file and building the configuration\<close>

definition loadEnv :: "world \<Rightarrow> error + (string \<rightharpoonup> string)" where
  "loadEnv w =
     (let envFile = Getenv w ''ENV_FILE'';
          envFile = (if envFile = [] then default_env_file w else envFile)
      in case godotenv_Read w envFile of
           Inl err \<Rightarrow>
             if os_IsNotExist err then Inr Map.empty
             else Inl (Wrapf ''error reading .env file: '' err)
         | Inr envs \<Rightarrow> Inr envs)"

text \<open>The composite literal of \<open>NewConfig\<close>: the four fields before any option runs.\<close>

definition resolved :: "world \<Rightarrow> (string \<rightharpoonup> string) \<Rightarrow> Config" where
  "resolved w envs =
     \<lparr>DatabaseURL = getEnvWithFallback w envs ''DATABASE_URL'' [],
      AuthServiceURL = getEnvWithFallback w envs ''AUTH_SERVICE_URL'' ''http://localhost:8080'',
      Debug = getBoolEnvWithFallback w envs ''DEBUG'' False,
      Port = getEnvWithFallback w envs ''PORT'' ''8092''\<rparr>"

text \<open>The loop \<^verbatim>\<open>for _, opt := range opts { opt(c) }\<close>.\<close>

fun apply_opts :: "Option list \<Rightarrow> Config \<Rightarrow> Config" where
  "apply_opts [] c = c"
| "apply_opts (opt # opts) c = apply_opts opts (opt c)"

definition NewConfig :: "world \<Rightarrow> Option list \<Rightarrow> error + Config" where
  "NewConfig w opts =
     (case loadEnv w of
        Inl err \<Rightarrow> Inl (Wrapf ''failed to load environment: '' err)
      | Inr envs \<Rightarrow>
          (let c = apply_opts opts (resolved w envs)
           in case validate c of
                Some err \<Rightarrow> Inl err
              | None \<Rightarrow> Inr c))"

subsection \<open>Vocabulary for statements about named options\<close>

text \<open>
  \<open>supplies_database_url n\<close>: the option \<open>n\<close> assigns the database URL (it is
  \<open>WithDatabaseURL\<close> of a non-empty string).
\<close>

fun supplies_database_url :: "named_option \<Rightarrow> bool" where
  "supplies_database_url (NamedDatabaseURL url) = (url \<noteq> [])"
| "supplies_database_url n = False"

text \<open>\<open>same_field m n\<close>: both options are made by the same constructor.\<close>

fun same_field :: "named_option \<Rightarrow> named_option \<Rightarrow> bool" where
  "same_field (NamedDatabaseURL a) (NamedDatabaseURL b) = True"
| "same_field (NamedAuthServiceURL a) (NamedAuthServiceURL b) = True"
| "same_field (NamedDebug a) (NamedDebug b) = True"
| "same_field (NamedPort a) (NamedPort b) = True"
| "same_field m n = False"

text \<open>
  \<open>assigns n\<close>: the option passes the guard of its constructor, so it really writes its
  field. \<open>holds n c\<close>: the field of \<open>n\<close> has, in \<open>c\<close>, the value that \<open>n\<close> was given.
\<close>

fun assigns :: "named_option \<Rightarrow> bool" where
  "assigns (NamedDatabaseURL url) = (url \<noteq> [])"
| "assigns (NamedAuthServiceURL url) = (url \<noteq> [])"
| "assigns (NamedDebug debug) = True"
| "assigns (NamedPort port) = (port \<noteq> [])"

fun holds :: "named_option \<Rightarrow> Config \<Rightarrow> bool" where
  "holds (NamedDatabaseURL url) c = (DatabaseURL c = url)"
| "holds (NamedAuthServiceURL url) c = (AuthServiceURL c = url)"
| "holds (NamedDebug debug) c = (Debug c = debug)"
| "holds (NamedPort port) c = (Port c = port)"

subsection \<open>Example environments\<close>

text \<open>A process with an empty environment and no dotenv file anywhere.\<close>

definition bare_world :: world where
  "bare_world =
     \<lparr>LookupEnv = Map.empty,
      godotenv_Read = (\<lambda>path. Inl (ErrNotExist path)),
      default_env_file = ''/srv/app/.env''\<rparr>"

text \<open>
  A process whose environment sets \<^verbatim>\<open>DATABASE_URL\<close>, \<^verbatim>\<open>PORT\<close> and
  \<^verbatim>\<open>AUTH_SERVICE_URL\<close>, with a dotenv file at the default place that sets \<^verbatim>\<open>PORT\<close>,
  a bad \<^verbatim>\<open>DEBUG\<close> and an empty \<^verbatim>\<open>AUTH_SERVICE_URL\<close>.
\<close>

definition dotenv_file :: "string \<rightharpoonup> string" where
  "dotenv_file =
     [''PORT'' \<mapsto> ''9000'', ''DEBUG'' \<mapsto> ''notabool'', ''AUTH_SERVICE_URL'' \<mapsto> []]"

definition file_world :: world where
  "file_world =
     \<lparr>LookupEnv =
        [''DATABASE_URL'' \<mapsto> ''postgres://db'', ''PORT'' \<mapsto> ''7000'',
         ''AUTH_SERVICE_URL'' \<mapsto> ''http://auth:1234''],
      godotenv_Read =
        (\<lambda>path. if path = ''/srv/app/.env'' then Inr dotenv_file else Inl (ErrNotExist path)),
      default_env_file = ''/srv/app/.env''\<rparr>"

text \<open>
  A process whose environment sets \<^verbatim>\<open>DATABASE_URL\<close>, \<^verbatim>\<open>PORT\<close>, \<^verbatim>\<open>DEBUG\<close> and an
  empty \<^verbatim>\<open>AUTH_SERVICE_URL\<close>, and whose \<^verbatim>\<open>ENV_FILE\<close> names a file that does not
  exist.
\<close>

definition env_only_world :: world where
  "env_only_world =
     \<lparr>LookupEnv =
        [''ENV_FILE'' \<mapsto> ''/nonexistent/.env'', ''DATABASE_URL'' \<mapsto> ''postgres://db'',
         ''PORT'' \<mapsto> ''7000'', ''DEBUG'' \<mapsto> ''true'', ''AUTH_SERVICE_URL'' \<mapsto> []],
      godotenv_Read = (\<lambda>path. Inl (ErrNotExist path)),
      default_env_file = ''/srv/app/.env''\<rparr>"

text \<open>A process whose \<^verbatim>\<open>ENV_FILE\<close> names a file that cannot be parsed.\<close>

definition broken_world :: world where
  "broken_world =
     \<lparr>LookupEnv = [''ENV_FILE'' \<mapsto> ''/etc/app.env'', ''DATABASE_URL'' \<mapsto> ''postgres://db''],
      godotenv_Read =
        (\<lambda>path. if path = ''/etc/app.env'' then Inl (ErrOther ''unexpected character in variable name'')
                else Inl (ErrNotExist path)),
      default_env_file = ''/srv/app/.env''\<rparr>"

section \<open>Properties\<close>

subsection \<open>Auxiliary facts\<close>

lemmas evaluate =
  resolved_def getEnvWithFallback_def getBoolEnvWithFallback_def FormatBool_def ParseBool_def
  validate_def WithDatabaseURL_def WithAuthServiceURL_def WithDebug_def WithPort_def

lemma apply_opts_append: "apply_opts (xs @ ys) c = apply_opts ys (apply_opts xs c)"
  by (induction xs arbitrary: c) simp_all

lemma getEnvWithFallback_nonempty:
  "fallback \<noteq> [] \<Longrightarrow> getEnvWithFallback w envs key fallback \<noteq> []"
  by (simp add: getEnvWithFallback_def split: option.splits)

lemma resolved_auth_nonempty: "AuthServiceURL (resolved w envs) \<noteq> []"
  by (simp add: resolved_def getEnvWithFallback_nonempty)

lemma resolved_port_nonempty: "Port (resolved w envs) \<noteq> []"
  by (simp add: resolved_def getEnvWithFallback_nonempty)

lemma option_of_keeps_auth:
  "AuthServiceURL c \<noteq> [] \<Longrightarrow> AuthServiceURL (option_of n c) \<noteq> []"
  by (cases n) (simp_all add: WithDatabaseURL_def WithAuthServiceURL_def WithDebug_def WithPort_def)

lemma named_opts_keep_auth:
  "AuthServiceURL c \<noteq> [] \<Longrightarrow> AuthServiceURL (apply_opts (map option_of ns) c) \<noteq> []"
  by (induction ns arbitrary: c) (simp_all add: option_of_keeps_auth)

lemma option_of_keeps_database_url:
  "\<not> supplies_database_url n \<Longrightarrow> DatabaseURL (option_of n c) = DatabaseURL c"
  by (cases n) (simp_all add: WithDatabaseURL_def WithAuthServiceURL_def WithDebug_def WithPort_def)

lemma named_opts_keep_database_url:
  "\<forall>n \<in> set ns. \<not> supplies_database_url n \<Longrightarrow>
   DatabaseURL (apply_opts (map option_of ns) c) = DatabaseURL c"
  by (induction ns arbitrary: c) (simp_all add: option_of_keeps_database_url)

lemma option_of_assigns: "assigns n \<Longrightarrow> holds n (option_of n c)"
  by (cases n) (simp_all add: WithDatabaseURL_def WithAuthServiceURL_def WithDebug_def WithPort_def)

lemma option_of_skips: "\<not> assigns n \<Longrightarrow> option_of n c = c"
  by (cases n) (simp_all add: WithDatabaseURL_def WithAuthServiceURL_def WithPort_def)

lemma option_of_other_field:
  "\<not> same_field k n \<Longrightarrow> holds n c \<Longrightarrow> holds n (option_of k c)"
  by (cases k; cases n)
    (simp_all add: WithDatabaseURL_def WithAuthServiceURL_def WithDebug_def WithPort_def)

lemma named_opts_other_fields:
  "\<forall>k \<in> set ks. \<not> same_field k n \<Longrightarrow> holds n c \<Longrightarrow> holds n (apply_opts (map option_of ks) c)"
  by (induction ks arbitrary: c) (simp_all add: option_of_other_field)

text \<open>What \<open>NewConfig\<close> does once the file mapping is there, and what a success means.\<close>

lemma NewConfig_loaded:
  "loadEnv w = Inr envs \<Longrightarrow>
   NewConfig w opts =
     (case validate (apply_opts opts (resolved w envs)) of
        Some err \<Rightarrow> Inl err | None \<Rightarrow> Inr (apply_opts opts (resolved w envs)))"
  by (simp add: NewConfig_def Let_def)

lemma NewConfig_Inr:
  "NewConfig w opts = Inr c \<Longrightarrow> \<exists>envs. loadEnv w = Inr envs \<and> c = apply_opts opts (resolved w envs)"
  by (auto simp add: NewConfig_def Let_def split: sum.splits option.splits)

lemma named_opts_never_fail_auth:
  "NewConfig w (map option_of ns) \<noteq> Inl (Errorf ''AUTH_SERVICE_URL is not set'')"
proof (cases "loadEnv w")
  case (Inl err)
  then show ?thesis by (simp add: NewConfig_def)
next
  case (Inr envs)
  have "AuthServiceURL (apply_opts (map option_of ns) (resolved w envs)) \<noteq> []"
    by (simp add: named_opts_keep_auth resolved_auth_nonempty)
  then show ?thesis
    using Inr by (simp add: NewConfig_loaded validate_def)
qed

text \<open>The example environments, evaluated.\<close>

lemma LookupEnv_bare: "LookupEnv bare_world = Map.empty"
  by (simp add: bare_world_def)

lemma LookupEnv_file:
  "LookupEnv file_world =
     [''DATABASE_URL'' \<mapsto> ''postgres://db'', ''PORT'' \<mapsto> ''7000'',
      ''AUTH_SERVICE_URL'' \<mapsto> ''http://auth:1234'']"
  by (simp add: file_world_def)

lemma loadEnv_bare: "loadEnv bare_world = Inr Map.empty"
  by (simp add: loadEnv_def bare_world_def Getenv_def)

lemma loadEnv_file: "loadEnv file_world = Inr dotenv_file"
  by (simp add: loadEnv_def file_world_def Getenv_def)

lemma loadEnv_broken:
  "loadEnv broken_world =
     Inl (Wrapf ''error reading .env file: '' (ErrOther ''unexpected character in variable name''))"
  by (simp add: loadEnv_def broken_world_def Getenv_def)

lemma NewConfig_file_world:
  "NewConfig file_world [] =
     Inr \<lparr>DatabaseURL = ''postgres://db'', AuthServiceURL = ''http://auth:1234'',
          Debug = False, Port = ''9000''\<rparr>"
  by (simp add: NewConfig_loaded [OF loadEnv_file] evaluate LookupEnv_file dotenv_file_def)

lemma NewConfig_file_ports:
  "NewConfig file_world [WithPort p, WithPort q] =
     Inr \<lparr>DatabaseURL = ''postgres://db'', AuthServiceURL = ''http://auth:1234'',
          Debug = False, Port = (if q \<noteq> [] then q else if p \<noteq> [] then p else ''9000'')\<rparr>"
  by (simp add: NewConfig_loaded [OF loadEnv_file] evaluate LookupEnv_file dotenv_file_def)

subsection \<open>Looking a string up\<close>

text \<open>
  C1. \<open>getEnvWithFallback\<close> returns the file mapping's value for the key when it is
  present and non-empty; otherwise the value of the process environment when that is
  present and non-empty; otherwise the fallback. In particular the file mapping wins when
  both sources have a non-empty value, and an empty file entry is passed over for the
  environment and then the fallback.
\<close>

theorem getEnvWithFallback_precedence:
  "(envs key = Some v \<and> v \<noteq> [] \<longrightarrow> getEnvWithFallback w envs key fallback = v) \<and>
   (envs key \<in> {None, Some []} \<and> LookupEnv w key = Some v' \<and> v' \<noteq> [] \<longrightarrow>
      getEnvWithFallback w envs key fallback = v') \<and>
   (envs key \<in> {None, Some []} \<and> LookupEnv w key \<in> {None, Some []} \<longrightarrow>
      getEnvWithFallback w envs key fallback = fallback) \<and>
   (envs key = Some v \<and> v \<noteq> [] \<and> LookupEnv w key = Some v' \<and> v' \<noteq> [] \<longrightarrow>
      getEnvWithFallback w envs key fallback = v) \<and>
   (envs key = Some [] \<longrightarrow>
      getEnvWithFallback w envs key fallback =
        (case LookupEnv w key of
           Some u \<Rightarrow> if u \<noteq> [] then u else fallback
         | None \<Rightarrow> fallback))"
  by (auto simp add: getEnvWithFallback_def split: option.splits)

theorem getEnvWithFallback_precedence_witness:
  "getEnvWithFallback file_world dotenv_file ''PORT'' ''8092'' = ''9000'' \<and>
   getEnvWithFallback file_world dotenv_file ''AUTH_SERVICE_URL'' ''http://localhost:8080''
     = ''http://auth:1234'' \<and>
   getEnvWithFallback file_world dotenv_file ''DATABASE_URL'' [] = ''postgres://db'' \<and>
   getEnvWithFallback bare_world dotenv_file ''AUTH_SERVICE_URL'' ''http://localhost:8080''
     = ''http://localhost:8080'' \<and>
   getEnvWithFallback bare_world Map.empty ''PORT'' ''8092'' = ''8092''"
  using
    getEnvWithFallback_precedence [of dotenv_file "''PORT''" "''9000''" file_world "''8092''" "''7000''"]
    getEnvWithFallback_precedence [of dotenv_file "''AUTH_SERVICE_URL''" "[]" file_world
      "''http://localhost:8080''" "''http://auth:1234''"]
    getEnvWithFallback_precedence [of dotenv_file "''DATABASE_URL''" "[]" file_world
      "[]" "''postgres://db''"]
    getEnvWithFallback_precedence [of dotenv_file "''AUTH_SERVICE_URL''" "[]" bare_world
      "''http://localhost:8080''" "[]"]
    getEnvWithFallback_precedence [of Map.empty "''PORT''" "[]" bare_world "''8092''" "[]"]
  by (simp add: dotenv_file_def LookupEnv_file LookupEnv_bare)

subsection \<open>The required database URL\<close>

text \<open>
  C2. Whenever the file was loaded and \<^verbatim>\<open>DATABASE_URL\<close> is absent or empty both in the
  file mapping and in the process environment, \<open>NewConfig\<close> called with named options
  none of which supplies the database URL returns the error \<^verbatim>\<open>DATABASE_URL is not set\<close>
  (and so no configuration), and the same call with \<open>WithDatabaseURL "postgres://x"\<close>
  added to the options returns a configuration, whose database URL is that string.
\<close>

theorem database_url_required:
  assumes "loadEnv w = Inr envs"
    and "envs ''DATABASE_URL'' \<in> {None, Some []}"
    and "LookupEnv w ''DATABASE_URL'' \<in> {None, Some []}"
    and "\<forall>n \<in> set (ns @ ms). \<not> supplies_database_url n"
  shows "NewConfig w (map option_of (ns @ ms)) = Inl (Errorf ''DATABASE_URL is not set'') \<and>
         (\<exists>c. NewConfig w (map option_of ns @ WithDatabaseURL ''postgres://x'' # map option_of ms)
                 = Inr c \<and> DatabaseURL c = ''postgres://x'')"
proof -
  let ?r = "resolved w envs"
  have empty: "DatabaseURL ?r = []"
    using assms(2,3) by (auto simp add: resolved_def getEnvWithFallback_def)
  have "DatabaseURL (apply_opts (map option_of (ns @ ms)) ?r) = []"
    using assms(4) empty by (simp only: named_opts_keep_database_url)
  then have fails: "NewConfig w (map option_of (ns @ ms)) = Inl (Errorf ''DATABASE_URL is not set'')"
    using assms(1) by (simp add: NewConfig_loaded validate_def)
  let ?c1 = "WithDatabaseURL ''postgres://x'' (apply_opts (map option_of ns) ?r)"
  let ?c = "apply_opts (map option_of ms) ?c1"
  have run: "apply_opts (map option_of ns @ WithDatabaseURL ''postgres://x'' # map option_of ms) ?r = ?c"
    by (simp add: apply_opts_append)
  have "\<forall>n \<in> set ms. \<not> supplies_database_url n"
    using assms(4) by simp
  then have db: "DatabaseURL ?c = ''postgres://x''"
    by (simp add: named_opts_keep_database_url WithDatabaseURL_def)
  have "AuthServiceURL ?c1 \<noteq> []"
    by (simp add: WithDatabaseURL_def named_opts_keep_auth resolved_auth_nonempty)
  then have auth: "AuthServiceURL ?c \<noteq> []"
    by (rule named_opts_keep_auth)
  have "validate ?c = None"
    using db auth by (simp add: validate_def)
  then have "NewConfig w (map option_of ns @ WithDatabaseURL ''postgres://x'' # map option_of ms) = Inr ?c"
    using assms(1) run by (simp add: NewConfig_loaded)
  with fails db show ?thesis by blast
qed

theorem database_url_required_witness:
  "NewConfig bare_world [] = Inl (Errorf ''DATABASE_URL is not set'') \<and>
   NewConfig bare_world [WithPort ''9000'', WithDatabaseURL []] =
     Inl (Errorf ''DATABASE_URL is not set'') \<and>
   (\<exists>c. NewConfig bare_world [WithPort ''9000'', WithDatabaseURL ''postgres://x'', WithDatabaseURL []]
           = Inr c \<and> DatabaseURL c = ''postgres://x'') \<and>
   NewConfig bare_world [WithDatabaseURL ''postgres://x''] =
     Inr \<lparr>DatabaseURL = ''postgres://x'', AuthServiceURL = ''http://localhost:8080'',
          Debug = False, Port = ''8092''\<rparr>"
proof -
  have none: "NewConfig bare_world [] = Inl (Errorf ''DATABASE_URL is not set'')"
    using database_url_required [of bare_world Map.empty "[]" "[]"] loadEnv_bare
    by (simp add: LookupEnv_bare)
  have some: "NewConfig bare_world [WithPort ''9000'', WithDatabaseURL []] =
        Inl (Errorf ''DATABASE_URL is not set'') \<and>
      (\<exists>c. NewConfig bare_world
              [WithPort ''9000'', WithDatabaseURL ''postgres://x'', WithDatabaseURL []]
              = Inr c \<and> DatabaseURL c = ''postgres://x'')"
    using database_url_required
      [of bare_world Map.empty "[NamedPort ''9000'']" "[NamedDatabaseURL []]"] loadEnv_bare
    by (simp add: LookupEnv_bare)
  have "NewConfig bare_world [WithDatabaseURL ''postgres://x''] =
     Inr \<lparr>DatabaseURL = ''postgres://x'', AuthServiceURL = ''http://localhost:8080'',
          Debug = False, Port = ''8092''\<rparr>"
    by (simp add: NewConfig_loaded [OF loadEnv_bare] evaluate LookupEnv_bare)
  with none some show ?thesis by simp
qed

subsection \<open>What a returned configuration satisfies\<close>

text \<open>
  C3. For every world (file mapping and process environment) and every list of options,
  a configuration that \<open>NewConfig\<close> returns has a non-empty \<open>DatabaseURL\<close> and a
  non-empty \<open>AuthServiceURL\<close>.
\<close>

theorem NewConfig_result_is_valid:
  "NewConfig w opts = Inr c \<Longrightarrow> DatabaseURL c \<noteq> [] \<and> AuthServiceURL c \<noteq> []"
  by (auto simp add: NewConfig_def validate_def Let_def split: sum.splits if_splits)

theorem NewConfig_result_is_valid_witness:
  "NewConfig file_world [] =
     Inr \<lparr>DatabaseURL = ''postgres://db'', AuthServiceURL = ''http://auth:1234'',
          Debug = False, Port = ''9000''\<rparr> \<and>
   DatabaseURL \<lparr>DatabaseURL = ''postgres://db'', AuthServiceURL = ''http://auth:1234'',
          Debug = False, Port = ''9000''\<rparr> \<noteq> [] \<and>
   AuthServiceURL \<lparr>DatabaseURL = ''postgres://db'', AuthServiceURL = ''http://auth:1234'',
          Debug = False, Port = ''9000''\<rparr> \<noteq> []"
  using NewConfig_result_is_valid [OF NewConfig_file_world] NewConfig_file_world
  by simp

subsection \<open>The order of the options\<close>

text \<open>
  C4, as the claim states it, fails: the later of two options of one field does not always
  decide the field. With \<open>WithPort ""\<close> as the later one the port is whatever the
  earlier one wrote, \<^verbatim>\<open>9001\<close> in one run and \<^verbatim>\<open>7001\<close> in the other.
\<close>

theorem later_empty_override_counterexample:
  "NewConfig file_world [WithPort ''9001'', WithPort []] =
     Inr \<lparr>DatabaseURL = ''postgres://db'', AuthServiceURL = ''http://auth:1234'',
          Debug = False, Port = ''9001''\<rparr> \<and>
   NewConfig file_world [WithPort ''7001'', WithPort []] =
     Inr \<lparr>DatabaseURL = ''postgres://db'', AuthServiceURL = ''http://auth:1234'',
          Debug = False, Port = ''7001''\<rparr>"
  by (simp add: NewConfig_file_ports)

text \<open>
  C4, amended. The options run strictly in the order given: running \<open>xs @ ys\<close> is
  running \<open>xs\<close> and then \<open>ys\<close> on its result, and that is the configuration
  \<open>NewConfig\<close> returns. Of two named options \<open>m\<close>, \<open>n\<close> of one field, \<open>n\<close> the later
  one, with any options before and between them and only named options of other fields
  after them: when \<open>n\<close> passes its constructor's guard (it is \<open>WithDebug\<close>, or its
  string is non-empty), the field of a returned configuration has the value of \<open>n\<close>;
  when \<open>n\<close> is a string option with the empty string, the call gives what it gives
  without \<open>n\<close>.
\<close>

theorem later_assigning_override_wins:
  "apply_opts (xs @ ys) c0 = apply_opts ys (apply_opts xs c0) \<and>
   (loadEnv w = Inr envs \<and> NewConfig w (xs @ ys) = Inr c \<longrightarrow>
      c = apply_opts ys (apply_opts xs (resolved w envs))) \<and>
   (same_field m n \<and> assigns n \<and> (\<forall>k \<in> set ks. \<not> same_field k n) \<and>
    NewConfig w (xs @ option_of m # ys @ option_of n # map option_of ks) = Inr c \<longrightarrow>
      holds n c) \<and>
   (same_field m n \<and> \<not> assigns n \<longrightarrow>
      NewConfig w (xs @ option_of m # ys @ option_of n # zs) =
      NewConfig w (xs @ option_of m # ys @ zs))"
proof (intro conjI impI)
  show "apply_opts (xs @ ys) c0 = apply_opts ys (apply_opts xs c0)"
    by (rule apply_opts_append)
next
  assume "loadEnv w = Inr envs \<and> NewConfig w (xs @ ys) = Inr c"
  then show "c = apply_opts ys (apply_opts xs (resolved w envs))"
    using NewConfig_Inr [of w "xs @ ys" c] by (auto simp add: apply_opts_append)
next
  assume a: "same_field m n \<and> assigns n \<and> (\<forall>k \<in> set ks. \<not> same_field k n) \<and>
    NewConfig w (xs @ option_of m # ys @ option_of n # map option_of ks) = Inr c"
  then obtain envs' where
    c: "c = apply_opts (xs @ option_of m # ys @ option_of n # map option_of ks) (resolved w envs')"
    using NewConfig_Inr by blast
  let ?before = "apply_opts ys (option_of m (apply_opts xs (resolved w envs')))"
  have "c = apply_opts (map option_of ks) (option_of n ?before)"
    by (simp add: c apply_opts_append)
  moreover have "holds n (option_of n ?before)"
    using a by (simp add: option_of_assigns)
  ultimately show "holds n c"
    using a by (simp add: named_opts_other_fields)
next
  assume "same_field m n \<and> \<not> assigns n"
  then have "option_of n = (\<lambda>c. c)"
    by (auto simp add: option_of_skips)
  then have "apply_opts (xs @ option_of m # ys @ option_of n # zs) =
      apply_opts (xs @ option_of m # ys @ zs)"
    by (intro ext) (simp add: apply_opts_append)
  then show "NewConfig w (xs @ option_of m # ys @ option_of n # zs) =
      NewConfig w (xs @ option_of m # ys @ zs)"
    by (simp only: NewConfig_def)
qed

theorem later_assigning_override_wins_witness:
  "NewConfig file_world [WithPort ''9001'', WithPort ''7001''] =
     Inr \<lparr>DatabaseURL = ''postgres://db'', AuthServiceURL = ''http://auth:1234'',
          Debug = False, Port = ''7001''\<rparr> \<and>
   apply_opts [WithPort ''7001''] (apply_opts [WithPort ''9001''] (resolved file_world dotenv_file)) =
     \<lparr>DatabaseURL = ''postgres://db'', AuthServiceURL = ''http://auth:1234'',
      Debug = False, Port = ''7001''\<rparr> \<and>
   holds (NamedPort ''7001'')
     \<lparr>DatabaseURL = ''postgres://db'', AuthServiceURL = ''http://auth:1234'',
      Debug = False, Port = ''7001''\<rparr> \<and>
   NewConfig file_world [WithPort ''9001'', WithPort []] = NewConfig file_world [WithPort ''9001'']"
proof -
  let ?c = "\<lparr>DatabaseURL = ''postgres://db'', AuthServiceURL = ''http://auth:1234'',
          Debug = False, Port = ''7001''\<rparr>"
  have run: "NewConfig file_world [WithPort ''9001'', WithPort ''7001''] = Inr ?c"
    by (simp add: NewConfig_file_ports)
  have "apply_opts [WithPort ''7001''] (apply_opts [WithPort ''9001''] (resolved file_world dotenv_file))
      = ?c"
    using later_assigning_override_wins
      [of "[WithPort ''9001'']" "[WithPort ''7001'']" _ file_world dotenv_file ?c]
      run loadEnv_file
    by simp
  moreover have "holds (NamedPort ''7001'') ?c"
    using later_assigning_override_wins
      [of "[]" "[]" _ file_world dotenv_file ?c "NamedPort ''9001''" "NamedPort ''7001''" "[]"]
      run
    by simp
  moreover have "NewConfig file_world [WithPort ''9001'', WithPort []] =
      NewConfig file_world [WithPort ''9001'']"
    using later_assigning_override_wins
      [of "[]" "[]" _ file_world dotenv_file ?c "NamedPort ''9001''" "NamedPort []" "[]" "[]"]
    by simp
  ultimately show ?thesis using run by simp
qed

subsection \<open>The error for a missing auth service URL\<close>

text \<open>
  C5, as the claim states it, fails: no world and no list of options written with the
  four named constructors makes \<open>NewConfig\<close> return \<^verbatim>\<open>AUTH_SERVICE_URL is not set\<close>.
\<close>

theorem named_options_auth_error_counterexample:
  "\<not> (\<exists>w ns. NewConfig w (map option_of ns) = Inl (Errorf ''AUTH_SERVICE_URL is not set''))"
  by (simp add: named_opts_never_fail_auth)

text \<open>
  C5, amended. \<open>NewConfig\<close> does not return \<^verbatim>\<open>AUTH_SERVICE_URL is not set\<close> without
  options, nor with any list of options written with the named constructors. The error
  stays reachable through an option of the caller's own that clears the field: when the
  file is loaded and the database URL is non-empty after the options \<open>opts\<close>, adding the
  closure that sets \<open>AuthServiceURL\<close> to the empty string gives exactly that error.
\<close>

theorem auth_url_error_reachability:
  "NewConfig w [] \<noteq> Inl (Errorf ''AUTH_SERVICE_URL is not set'') \<and>
   NewConfig w (map option_of ns) \<noteq> Inl (Errorf ''AUTH_SERVICE_URL is not set'') \<and>
   (loadEnv w = Inr envs \<and> DatabaseURL (apply_opts opts (resolved w envs)) \<noteq> [] \<longrightarrow>
      NewConfig w (opts @ [\<lambda>c. c\<lparr>AuthServiceURL := []\<rparr>]) =
        Inl (Errorf ''AUTH_SERVICE_URL is not set''))"
proof (intro conjI impI)
  show "NewConfig w [] \<noteq> Inl (Errorf ''AUTH_SERVICE_URL is not set'')"
    using named_opts_never_fail_auth [of w "[]"] by simp
  show "NewConfig w (map option_of ns) \<noteq> Inl (Errorf ''AUTH_SERVICE_URL is not set'')"
    by (rule named_opts_never_fail_auth)
  assume "loadEnv w = Inr envs \<and> DatabaseURL (apply_opts opts (resolved w envs)) \<noteq> []"
  then show "NewConfig w (opts @ [\<lambda>c. c\<lparr>AuthServiceURL := []\<rparr>]) =
        Inl (Errorf ''AUTH_SERVICE_URL is not set'')"
    by (simp add: NewConfig_loaded apply_opts_append validate_def)
qed

theorem auth_url_error_reachability_witness:
  "NewConfig file_world [\<lambda>c. c\<lparr>AuthServiceURL := []\<rparr>] =
     Inl (Errorf ''AUTH_SERVICE_URL is not set'')"
  using auth_url_error_reachability [of file_world "[]" dotenv_file "[]"] loadEnv_file
  by (simp add: evaluate LookupEnv_file dotenv_file_def)

subsection \<open>What each named constructor writes\<close>

text \<open>
  C6. Each named constructor sets its own field and no other: \<open>WithDebug\<close> sets
  \<open>Debug\<close> to the value given, whatever it is; \<open>WithDatabaseURL\<close>,
  \<open>WithAuthServiceURL\<close> and \<open>WithPort\<close> set their field when the string given is
  non-empty and leave it as it was otherwise.
\<close>

theorem named_constructors_set_one_field:
  "WithDebug debug c =
     \<lparr>DatabaseURL = DatabaseURL c, AuthServiceURL = AuthServiceURL c,
      Debug = debug, Port = Port c\<rparr> \<and>
   WithDatabaseURL url c =
     \<lparr>DatabaseURL = (if url \<noteq> [] then url else DatabaseURL c),
      AuthServiceURL = AuthServiceURL c, Debug = Debug c, Port = Port c\<rparr> \<and>
   WithAuthServiceURL url c =
     \<lparr>DatabaseURL = DatabaseURL c,
      AuthServiceURL = (if url \<noteq> [] then url else AuthServiceURL c),
      Debug = Debug c, Port = Port c\<rparr> \<and>
   WithPort port c =
     \<lparr>DatabaseURL = DatabaseURL c, AuthServiceURL = AuthServiceURL c, Debug = Debug c,
      Port = (if port \<noteq> [] then port else Port c)\<rparr>"
  by (simp add: WithDebug_def WithDatabaseURL_def WithAuthServiceURL_def WithPort_def)

theorem named_constructors_set_one_field_witness:
  "WithPort ''9000'' \<lparr>DatabaseURL = ''postgres://db'', AuthServiceURL = ''http://auth:1234'',
      Debug = False, Port = ''8092''\<rparr> =
     \<lparr>DatabaseURL = ''postgres://db'', AuthServiceURL = ''http://auth:1234'',
      Debug = False, Port = ''9000''\<rparr> \<and>
   WithDebug True \<lparr>DatabaseURL = ''postgres://db'', AuthServiceURL = ''http://auth:1234'',
      Debug = False, Port = ''8092''\<rparr> =
     \<lparr>DatabaseURL = ''postgres://db'', AuthServiceURL = ''http://auth:1234'',
      Debug = True, Port = ''8092''\<rparr>"
  using named_constructors_set_one_field
    [of True "\<lparr>DatabaseURL = ''postgres://db'', AuthServiceURL = ''http://auth:1234'',
      Debug = False, Port = ''8092''\<rparr>" "[]" "''9000''"]
  by simp

subsection \<open>Looking a boolean up\<close>

text \<open>
  C7. \<open>getBoolEnvWithFallback\<close> looks the string up with the string form of the boolean
  fallback as fallback string and parses the result; whenever the string does not parse
  as a boolean it returns the fallback. \<^verbatim>\<open>notabool\<close> does not parse, so a file with
  \<^verbatim>\<open>DEBUG=notabool\<close> gives \<open>False\<close> for the fallback \<open>False\<close>, and \<open>NewConfig\<close> still
  returns a configuration (here with the database URL from an option), with \<open>Debug\<close>
  false.
\<close>

theorem getBoolEnvWithFallback_bad_literal:
  "getBoolEnvWithFallback w envs key fallback =
     (case ParseBool (getEnvWithFallback w envs key (FormatBool fallback)) of
        Inl err \<Rightarrow> fallback | Inr b \<Rightarrow> b) \<and>
   (ParseBool (getEnvWithFallback w envs key (FormatBool fallback)) = Inl err \<longrightarrow>
      getBoolEnvWithFallback w envs key fallback = fallback) \<and>
   ParseBool ''notabool'' = Inl (NumError ''ParseBool'' ''notabool'') \<and>
   (envs ''DEBUG'' = Some ''notabool'' \<longrightarrow>
      getBoolEnvWithFallback w envs ''DEBUG'' False = False) \<and>
   (loadEnv w = Inr envs \<and> envs ''DEBUG'' = Some ''notabool'' \<longrightarrow>
      (\<exists>c. NewConfig w [WithDatabaseURL ''postgres://x''] = Inr c \<and> Debug c = False))"
proof (intro conjI impI)
  show "getBoolEnvWithFallback w envs key fallback =
     (case ParseBool (getEnvWithFallback w envs key (FormatBool fallback)) of
        Inl err \<Rightarrow> fallback | Inr b \<Rightarrow> b)"
    by (simp add: getBoolEnvWithFallback_def)
  show "ParseBool ''notabool'' = Inl (NumError ''ParseBool'' ''notabool'')"
    by (simp add: ParseBool_def)
next
  assume "ParseBool (getEnvWithFallback w envs key (FormatBool fallback)) = Inl err"
  then show "getBoolEnvWithFallback w envs key fallback = fallback"
    by (simp add: getBoolEnvWithFallback_def)
next
  assume "envs ''DEBUG'' = Some ''notabool''"
  then show "getBoolEnvWithFallback w envs ''DEBUG'' False = False"
    by (simp add: getBoolEnvWithFallback_def getEnvWithFallback_def ParseBool_def)
next
  assume a: "loadEnv w = Inr envs \<and> envs ''DEBUG'' = Some ''notabool''"
  let ?c = "WithDatabaseURL ''postgres://x'' (resolved w envs)"
  have "DatabaseURL ?c \<noteq> []" "AuthServiceURL ?c \<noteq> []"
    by (simp_all add: WithDatabaseURL_def resolved_auth_nonempty)
  then have "NewConfig w [WithDatabaseURL ''postgres://x''] = Inr ?c"
    using a by (simp add: NewConfig_loaded validate_def)
  moreover have "Debug ?c = False"
    using a by (simp add: WithDatabaseURL_def resolved_def getBoolEnvWithFallback_def
        getEnvWithFallback_def ParseBool_def)
  ultimately show "\<exists>c. NewConfig w [WithDatabaseURL ''postgres://x''] = Inr c \<and> Debug c = False"
    by blast
qed

theorem getBoolEnvWithFallback_bad_literal_witness:
  "ParseBool (getEnvWithFallback file_world dotenv_file ''DEBUG'' (FormatBool True)) =
     Inl (NumError ''ParseBool'' ''notabool'') \<and>
   getBoolEnvWithFallback file_world dotenv_file ''DEBUG'' True = True \<and>
   getBoolEnvWithFallback file_world dotenv_file ''DEBUG'' False = False \<and>
   (\<exists>c. NewConfig file_world [WithDatabaseURL ''postgres://x''] = Inr c \<and> Debug c = False)"
proof -
  have bad: "ParseBool (getEnvWithFallback file_world dotenv_file ''DEBUG'' (FormatBool True)) =
     Inl (NumError ''ParseBool'' ''notabool'')"
    by (simp add: getEnvWithFallback_def dotenv_file_def ParseBool_def)
  have entry: "dotenv_file ''DEBUG'' = Some ''notabool''"
    by (simp add: dotenv_file_def)
  show ?thesis
    using bad entry loadEnv_file
      getBoolEnvWithFallback_bad_literal
        [of file_world dotenv_file "''DEBUG''" True "NumError ''ParseBool'' ''notabool''"]
    by simp
qed

subsection \<open>Loading the file\<close>

text \<open>
  C8. When reading the file (at the path of \<^verbatim>\<open>ENV_FILE\<close>, or at the default path when
  that variable is unset or empty) fails because the file does not exist, \<open>loadEnv\<close>
  returns the empty mapping and \<open>NewConfig\<close> goes on with the process environment and
  the defaults only: it validates, and returns when valid, the options applied to the
  configuration whose \<open>DatabaseURL\<close>, \<open>AuthServiceURL\<close> and \<open>Port\<close> are the non-empty
  value of \<^verbatim>\<open>DATABASE_URL\<close>, \<^verbatim>\<open>AUTH_SERVICE_URL\<close> and \<^verbatim>\<open>PORT\<close> in the process
  environment, or else the empty string, \<^verbatim>\<open>http://localhost:8080\<close> and \<^verbatim>\<open>8092\<close>, and
  whose \<open>Debug\<close> is the boolean that the non-empty value of \<^verbatim>\<open>DEBUG\<close> in the process
  environment, or else \<^verbatim>\<open>false\<close>, parses to (false when it does not parse). When
  reading fails in any other way, \<open>loadEnv\<close> returns the error wrapped
  (\<^verbatim>\<open>error reading .env file: ...\<close>) and \<open>NewConfig\<close> returns an error, that one wrapped
  again (\<^verbatim>\<open>failed to load environment: ...\<close>), whatever the options, and no
  configuration.
\<close>

theorem loadEnv_missing_file_is_not_fatal:
  "(godotenv_Read w (if Getenv w ''ENV_FILE'' = [] then default_env_file w
                     else Getenv w ''ENV_FILE'') = Inl err \<and> os_IsNotExist err \<longrightarrow>
      loadEnv w = Inr Map.empty \<and>
      NewConfig w opts =
        (case validate
           (apply_opts opts
             \<lparr>DatabaseURL =
                (case LookupEnv w ''DATABASE_URL'' of
                   Some v \<Rightarrow> if v \<noteq> [] then v else []
                 | None \<Rightarrow> []),
              AuthServiceURL =
                (case LookupEnv w ''AUTH_SERVICE_URL'' of
                   Some v \<Rightarrow> if v \<noteq> [] then v else ''http://localhost:8080''
                 | None \<Rightarrow> ''http://localhost:8080''),
              Debug =
                (case ParseBool
                   (case LookupEnv w ''DEBUG'' of
                      Some v \<Rightarrow> if v \<noteq> [] then v else ''false''
                    | None \<Rightarrow> ''false'') of
                   Inl e \<Rightarrow> False
                 | Inr b \<Rightarrow> b),
              Port =
                (case LookupEnv w ''PORT'' of
                   Some v \<Rightarrow> if v \<noteq> [] then v else ''8092''
                 | None \<Rightarrow> ''8092'')\<rparr>) of
           Some e \<Rightarrow> Inl e
         | None \<Rightarrow>
             Inr (apply_opts opts
               \<lparr>DatabaseURL =
                  (case LookupEnv w ''DATABASE_URL'' of
                     Some v \<Rightarrow> if v \<noteq> [] then v else []
                   | None \<Rightarrow> []),
                AuthServiceURL =
                  (case LookupEnv w ''AUTH_SERVICE_URL'' of
                     Some v \<Rightarrow> if v \<noteq> [] then v else ''http://localhost:8080''
                   | None \<Rightarrow> ''http://localhost:8080''),
                Debug =
                  (case ParseBool
                     (case LookupEnv w ''DEBUG'' of
                        Some v \<Rightarrow> if v \<noteq> [] then v else ''false''
                      | None \<Rightarrow> ''false'') of
                     Inl e \<Rightarrow> False
                   | Inr b \<Rightarrow> b),
                Port =
                  (case LookupEnv w ''PORT'' of
                     Some v \<Rightarrow> if v \<noteq> [] then v else ''8092''
                   | None \<Rightarrow> ''8092'')\<rparr>)) \<and>
      getEnvWithFallback w Map.empty key fallback =
        (case LookupEnv w key of
           Some v \<Rightarrow> if v \<noteq> [] then v else fallback
         | None \<Rightarrow> fallback)) \<and>
   (godotenv_Read w (if Getenv w ''ENV_FILE'' = [] then default_env_file w
                     else Getenv w ''ENV_FILE'') = Inl err \<and> \<not> os_IsNotExist err \<longrightarrow>
      loadEnv w = Inl (Wrapf ''error reading .env file: '' err) \<and>
      NewConfig w opts =
        Inl (Wrapf ''failed to load environment: '' (Wrapf ''error reading .env file: '' err)) \<and>
      Error Quote
          (Wrapf ''failed to load environment: '' (Wrapf ''error reading .env file: '' err)) =
        ''failed to load environment: error reading .env file: '' @ Error Quote err)"
proof (intro conjI impI)
  assume a: "godotenv_Read w (if Getenv w ''ENV_FILE'' = [] then default_env_file w
                     else Getenv w ''ENV_FILE'') = Inl err \<and> os_IsNotExist err"
  then show empty: "loadEnv w = Inr Map.empty"
    by (simp add: loadEnv_def Let_def)
  have fields: "resolved w Map.empty =
      \<lparr>DatabaseURL =
         (case LookupEnv w ''DATABASE_URL'' of
            Some v \<Rightarrow> if v \<noteq> [] then v else []
          | None \<Rightarrow> []),
       AuthServiceURL =
         (case LookupEnv w ''AUTH_SERVICE_URL'' of
            Some v \<Rightarrow> if v \<noteq> [] then v else ''http://localhost:8080''
          | None \<Rightarrow> ''http://localhost:8080''),
       Debug =
         (case ParseBool
            (case LookupEnv w ''DEBUG'' of
               Some v \<Rightarrow> if v \<noteq> [] then v else ''false''
             | None \<Rightarrow> ''false'') of
            Inl e \<Rightarrow> False
          | Inr b \<Rightarrow> b),
       Port =
         (case LookupEnv w ''PORT'' of
            Some v \<Rightarrow> if v \<noteq> [] then v else ''8092''
          | None \<Rightarrow> ''8092'')\<rparr>"
    by (simp add: resolved_def getEnvWithFallback_def getBoolEnvWithFallback_def FormatBool_def)
  show "NewConfig w opts =
        (case validate
           (apply_opts opts
             \<lparr>DatabaseURL =
                (case LookupEnv w ''DATABASE_URL'' of
                   Some v \<Rightarrow> if v \<noteq> [] then v else []
                 | None \<Rightarrow> []),
              AuthServiceURL =
                (case LookupEnv w ''AUTH_SERVICE_URL'' of
                   Some v \<Rightarrow> if v \<noteq> [] then v else ''http://localhost:8080''
                 | None \<Rightarrow> ''http://localhost:8080''),
              Debug =
                (case ParseBool
                   (case LookupEnv w ''DEBUG'' of
                      Some v \<Rightarrow> if v \<noteq> [] then v else ''false''
                    | None \<Rightarrow> ''false'') of
                   Inl e \<Rightarrow> False
                 | Inr b \<Rightarrow> b),
              Port =
                (case LookupEnv w ''PORT'' of
                   Some v \<Rightarrow> if v \<noteq> [] then v else ''8092''
                 | None \<Rightarrow> ''8092'')\<rparr>) of
           Some e \<Rightarrow> Inl e
         | None \<Rightarrow>
             Inr (apply_opts opts
               \<lparr>DatabaseURL =
                  (case LookupEnv w ''DATABASE_URL'' of
                     Some v \<Rightarrow> if v \<noteq> [] then v else []
                   | None \<Rightarrow> []),
                AuthServiceURL =
                  (case LookupEnv w ''AUTH_SERVICE_URL'' of
                     Some v \<Rightarrow> if v \<noteq> [] then v else ''http://localhost:8080''
                   | None \<Rightarrow> ''http://localhost:8080''),
                Debug =
                  (case ParseBool
                     (case LookupEnv w ''DEBUG'' of
                        Some v \<Rightarrow> if v \<noteq> [] then v else ''false''
                      | None \<Rightarrow> ''false'') of
                     Inl e \<Rightarrow> False
                   | Inr b \<Rightarrow> b),
                Port =
                  (case LookupEnv w ''PORT'' of
                     Some v \<Rightarrow> if v \<noteq> [] then v else ''8092''
                   | None \<Rightarrow> ''8092'')\<rparr>))"
    using NewConfig_loaded [OF empty, of opts] by (simp only: fields)
  show "getEnvWithFallback w Map.empty key fallback =
        (case LookupEnv w key of
           Some v \<Rightarrow> if v \<noteq> [] then v else fallback
         | None \<Rightarrow> fallback)"
    by (simp add: getEnvWithFallback_def)
next
  assume a: "godotenv_Read w (if Getenv w ''ENV_FILE'' = [] then default_env_file w
                     else Getenv w ''ENV_FILE'') = Inl err \<and> \<not> os_IsNotExist err"
  then show failed: "loadEnv w = Inl (Wrapf ''error reading .env file: '' err)"
    by (simp add: loadEnv_def Let_def)
  then show "NewConfig w opts =
        Inl (Wrapf ''failed to load environment: '' (Wrapf ''error reading .env file: '' err))"
    by (simp add: NewConfig_def)
  show "Error Quote
          (Wrapf ''failed to load environment: '' (Wrapf ''error reading .env file: '' err)) =
        ''failed to load environment: error reading .env file: '' @ Error Quote err"
    by simp
qed

theorem loadEnv_missing_file_is_not_fatal_witness:
  "loadEnv env_only_world = Inr Map.empty \<and>
   NewConfig env_only_world [] =
     Inr \<lparr>DatabaseURL = ''postgres://db'', AuthServiceURL = ''http://localhost:8080'',
          Debug = True, Port = ''7000''\<rparr> \<and>
   NewConfig env_only_world [WithPort ''9000''] =
     Inr \<lparr>DatabaseURL = ''postgres://db'', AuthServiceURL = ''http://localhost:8080'',
          Debug = True, Port = ''9000''\<rparr> \<and>
   NewConfig bare_world [] = Inl (Errorf ''DATABASE_URL is not set'') \<and>
   loadEnv broken_world =
     Inl (Wrapf ''error reading .env file: '' (ErrOther ''unexpected character in variable name'')) \<and>
   NewConfig broken_world [WithDatabaseURL ''postgres://x''] =
     Inl (Wrapf ''failed to load environment: ''
           (Wrapf ''error reading .env file: '' (ErrOther ''unexpected character in variable name'')))"
proof -
  have env: "LookupEnv env_only_world =
      [''ENV_FILE'' \<mapsto> ''/nonexistent/.env'', ''DATABASE_URL'' \<mapsto> ''postgres://db'',
       ''PORT'' \<mapsto> ''7000'', ''DEBUG'' \<mapsto> ''true'', ''AUTH_SERVICE_URL'' \<mapsto> []]"
    by (simp add: env_only_world_def)
  have missing: "godotenv_Read env_only_world
      (if Getenv env_only_world ''ENV_FILE'' = [] then default_env_file env_only_world
       else Getenv env_only_world ''ENV_FILE'') = Inl (ErrNotExist ''/nonexistent/.env'')"
    by (simp add: env_only_world_def Getenv_def)
  have bare: "godotenv_Read bare_world
      (if Getenv bare_world ''ENV_FILE'' = [] then default_env_file bare_world
       else Getenv bare_world ''ENV_FILE'') = Inl (ErrNotExist ''/srv/app/.env'')"
    by (simp add: bare_world_def Getenv_def)
  have broken: "godotenv_Read broken_world
      (if Getenv broken_world ''ENV_FILE'' = [] then default_env_file broken_world
       else Getenv broken_world ''ENV_FILE'') =
      Inl (ErrOther ''unexpected character in variable name'')"
    by (simp add: broken_world_def Getenv_def)
  have none: "loadEnv env_only_world = Inr Map.empty \<and>
      NewConfig env_only_world [] =
        Inr \<lparr>DatabaseURL = ''postgres://db'', AuthServiceURL = ''http://localhost:8080'',
          Debug = True, Port = ''7000''\<rparr>"
    using loadEnv_missing_file_is_not_fatal
      [of env_only_world "ErrNotExist ''/nonexistent/.env''" "[]"] missing
    by (simp add: env ParseBool_def validate_def)
  have port: "NewConfig env_only_world [WithPort ''9000''] =
        Inr \<lparr>DatabaseURL = ''postgres://db'', AuthServiceURL = ''http://localhost:8080'',
          Debug = True, Port = ''9000''\<rparr>"
    using loadEnv_missing_file_is_not_fatal
      [of env_only_world "ErrNotExist ''/nonexistent/.env''" "[WithPort ''9000'']"] missing
    by (simp add: env ParseBool_def validate_def WithPort_def)
  have unset: "NewConfig bare_world [] = Inl (Errorf ''DATABASE_URL is not set'')"
    using loadEnv_missing_file_is_not_fatal
      [of bare_world "ErrNotExist ''/srv/app/.env''" "[]"] bare
    by (simp add: LookupEnv_bare ParseBool_def validate_def)
  have fatal: "loadEnv broken_world =
       Inl (Wrapf ''error reading .env file: '' (ErrOther ''unexpected character in variable name'')) \<and>
     NewConfig broken_world [WithDatabaseURL ''postgres://x''] =
       Inl (Wrapf ''failed to load environment: ''
           (Wrapf ''error reading .env file: '' (ErrOther ''unexpected character in variable name'')))"
    using loadEnv_missing_file_is_not_fatal
      [of broken_world "ErrOther ''unexpected character in variable name''"
          "[WithDatabaseURL ''postgres://x'']"]
      broken
    by simp
  from none port unset fatal show ?thesis by simp
qed

subsection \<open>String options given the empty string\<close>

text \<open>
  C9. For every configuration, \<open>WithDatabaseURL ""\<close>, \<open>WithAuthServiceURL ""\<close> and
  \<open>WithPort ""\<close> are the identity: the configuration comes back with every field
  unchanged.
\<close>

theorem empty_string_option_is_identity:
  "WithDatabaseURL [] c = c \<and> WithAuthServiceURL [] c = c \<and> WithPort [] c = c"
  by (simp add: WithDatabaseURL_def WithAuthServiceURL_def WithPort_def)

subsection \<open>Defaults are never empty\<close>

text \<open>
  C10. With a non-empty fallback \<open>getEnvWithFallback\<close> returns a non-empty string, for
  every file mapping and key. So the \<open>AuthServiceURL\<close> and \<open>Port\<close> that \<open>NewConfig\<close>
  builds before any option runs are non-empty, and without options \<open>NewConfig\<close> never
  returns \<^verbatim>\<open>AUTH_SERVICE_URL is not set\<close>: an error it returns is
  \<^verbatim>\<open>DATABASE_URL is not set\<close>, or it is the wrapped error of a failed file load and
  no validation error at all.
\<close>

theorem nonempty_fallback_gives_nonempty:
  "(fallback \<noteq> [] \<longrightarrow> getEnvWithFallback w envs key fallback \<noteq> []) \<and>
   AuthServiceURL (resolved w envs) \<noteq> [] \<and>
   Port (resolved w envs) \<noteq> [] \<and>
   NewConfig w [] \<noteq> Inl (Errorf ''AUTH_SERVICE_URL is not set'') \<and>
   (NewConfig w [] = Inl err \<longrightarrow>
      err = Errorf ''DATABASE_URL is not set'' \<or>
      (\<exists>e. loadEnv w = Inl e \<and> err = Wrapf ''failed to load environment: '' e))"
proof (intro conjI impI)
  assume "fallback \<noteq> []"
  then show "getEnvWithFallback w envs key fallback \<noteq> []"
    by (rule getEnvWithFallback_nonempty)
next
  show "AuthServiceURL (resolved w envs) \<noteq> []"
    by (rule resolved_auth_nonempty)
  show "Port (resolved w envs) \<noteq> []"
    by (rule resolved_port_nonempty)
  show "NewConfig w [] \<noteq> Inl (Errorf ''AUTH_SERVICE_URL is not set'')"
    using named_opts_never_fail_auth [of w "[]"] by simp
next
  assume failed: "NewConfig w [] = Inl err"
  show "err = Errorf ''DATABASE_URL is not set'' \<or>
      (\<exists>e. loadEnv w = Inl e \<and> err = Wrapf ''failed to load environment: '' e)"
  proof (cases "loadEnv w")
    case (Inl e)
    then show ?thesis using failed by (simp add: NewConfig_def)
  next
    case (Inr envs')
    then show ?thesis
      using failed resolved_auth_nonempty [of w envs']
      by (auto simp add: NewConfig_loaded validate_def split: if_splits)
  qed
qed

theorem nonempty_fallback_gives_nonempty_witness:
  "getEnvWithFallback bare_world dotenv_file ''AUTH_SERVICE_URL'' ''http://localhost:8080'' \<noteq> [] \<and>
   NewConfig bare_world [] = Inl (Errorf ''DATABASE_URL is not set'')"
proof -
  have "NewConfig bare_world [] = Inl (Errorf ''DATABASE_URL is not set'')"
    by (simp add: NewConfig_loaded [OF loadEnv_bare] evaluate LookupEnv_bare)
  then show ?thesis
    using nonempty_fallback_gives_nonempty
      [of "''http://localhost:8080''" bare_world dotenv_file "''AUTH_SERVICE_URL''"
          "Errorf ''DATABASE_URL is not set''"]
    by simp
qed

end
